theory Spec2Isabelle
  imports Main "HOL-Library.Sublist"
begin

section \<open>Python string primitives used by the program\<close>

text \<open>
  Python strings are modelled as \<open>string\<close>: a list of characters, each read as a code
  point below 256. The primitives below compute what the corresponding \<open>str\<close> methods
  compute on such strings.
\<close>

abbreviation sq :: char where "sq \<equiv> CHR 0x27"
abbreviation dq :: char where "dq \<equiv> CHR 0x22"
abbreviation bsl :: char where "bsl \<equiv> CHR 0x5C"

text \<open>\<open>str.isspace\<close> on one character: the code points below 256 that Python treats as
  whitespace (tab, line feed, vertical tab, form feed, carriage return, the four
  separators 0x1C to 0x1F, space, next line 0x85 and no-break space 0xA0).\<close>

definition isspace :: "char \<Rightarrow> bool" where
  "isspace c = (c \<in> set [CHR 0x09, CHR 0x0A, CHR 0x0B, CHR 0x0C, CHR 0x0D,
       CHR 0x1C, CHR 0x1D, CHR 0x1E, CHR 0x1F, CHR 0x20, CHR 0x85, CHR 0xA0])"

text \<open>\<open>s.strip()\<close>: drop whitespace at both ends.\<close>

definition strip :: "string \<Rightarrow> string" where
  "strip s = rev (dropWhile isspace (rev (dropWhile isspace s)))"

text \<open>\<open>s.strip(chars)\<close>: drop the characters of \<open>chars\<close> at both ends.\<close>

definition strip_chars :: "string \<Rightarrow> string \<Rightarrow> string" where
  "strip_chars cs s =
     rev (dropWhile (\<lambda>c. c \<in> set cs) (rev (dropWhile (\<lambda>c. c \<in> set cs) s)))"

text \<open>\<open>s.split()\<close> with no separator: the maximal runs of non-whitespace characters.
  The accumulator holds the current run, reversed.\<close>

fun split_ws_aux :: "string \<Rightarrow> string \<Rightarrow> string list" where
  "split_ws_aux acc [] = (if acc = [] then [] else [rev acc])"
| "split_ws_aux acc (c # cs) =
     (if isspace c
      then (if acc = [] then split_ws_aux [] cs else rev acc # split_ws_aux [] cs)
      else split_ws_aux (c # acc) cs)"

definition split_ws :: "string \<Rightarrow> string list" where
  "split_ws s = split_ws_aux [] s"

text \<open>\<open>sub in s\<close>: substring test.\<close>

fun is_substr :: "string \<Rightarrow> string \<Rightarrow> bool" where
  "is_substr sub [] = (sub = [])"
| "is_substr sub (c # cs) = (prefix sub (c # cs) \<or> is_substr sub cs)"

text \<open>\<open>s.split(sep)\<close> for a non-empty separator: scan from the left, cutting at each
  occurrence of \<open>sep\<close> and resuming after it. The accumulator holds the current
  segment, reversed. (Python raises \<open>ValueError\<close> on an empty separator; the program
  only passes fixed non-empty literals, and the model then cuts nowhere.)\<close>

function split_sep_aux :: "string \<Rightarrow> string \<Rightarrow> string \<Rightarrow> string list" where
  "split_sep_aux sep acc [] = [rev acc]"
| "split_sep_aux sep acc (c # cs) =
     (if sep \<noteq> [] \<and> prefix sep (c # cs)
      then rev acc # split_sep_aux sep [] (drop (length sep) (c # cs))
      else split_sep_aux sep (c # acc) cs)"
  by pat_completeness auto
termination
  by (relation "measure (\<lambda>(sep, acc, s). length s)") auto

definition split_sep :: "string \<Rightarrow> string \<Rightarrow> string list" where
  "split_sep sep s = split_sep_aux sep [] s"

text \<open>\<open>s.find(c)\<close> and \<open>s.rfind(c)\<close> for a one-character argument: the index of the
  first (last) occurrence, or \<open>-1\<close>.\<close>

fun find_aux :: "char \<Rightarrow> string \<Rightarrow> nat \<Rightarrow> int" where
  "find_aux c [] i = -1"
| "find_aux c (x # xs) i = (if x = c then int i else find_aux c xs (Suc i))"

definition find :: "char \<Rightarrow> string \<Rightarrow> int" where
  "find c s = find_aux c s 0"

fun rfind_aux :: "char \<Rightarrow> string \<Rightarrow> nat \<Rightarrow> int \<Rightarrow> int" where
  "rfind_aux c [] i found = found"
| "rfind_aux c (x # xs) i found = rfind_aux c xs (Suc i) (if x = c then int i else found)"

definition rfind :: "char \<Rightarrow> string \<Rightarrow> int" where
  "rfind c s = rfind_aux c s 0 (-1)"

text \<open>\<open>s[a:b]\<close> for \<open>0 \<le> a\<close> and \<open>0 \<le> b\<close> (the only slices the program takes).\<close>

definition slice :: "string \<Rightarrow> int \<Rightarrow> int \<Rightarrow> string" where
  "slice s a b = take (nat b - nat a) (drop (nat a) s)"

text \<open>\<open>s.lower()\<close>: the ASCII capitals and the Latin-1 capitals (0xC0 to 0xDE but the
  multiplication sign 0xD7) move up by 32; every other code point below 256 stays.\<close>

definition lower_char :: "char \<Rightarrow> char" where
  "lower_char c =
     (let n = (of_char c :: nat)
      in if (65 \<le> n \<and> n \<le> 90) \<or> (192 \<le> n \<and> n \<le> 222 \<and> n \<noteq> 215)
         then char_of (n + 32) else c)"

definition lower :: "string \<Rightarrow> string" where
  "lower s = map lower_char s"

text \<open>\<open>sep.join(xs)\<close>.\<close>

fun join :: "string \<Rightarrow> string list \<Rightarrow> string" where
  "join sep [] = []"
| "join sep [x] = x"
| "join sep (x # y # ys) = x @ sep @ join sep (y # ys)"

text \<open>\<open>str(n)\<close> for an integer: decimal digits, with a minus sign for negatives.\<close>

fun str_nat :: "nat \<Rightarrow> string" where
  "str_nat n =
     (if n < 10 then [''0123456789'' ! n]
      else str_nat (n div 10) @ [''0123456789'' ! (n mod 10)])"

declare str_nat.simps [simp del]

definition str_int :: "int \<Rightarrow> string" where
  "str_int i = (if i < 0 then CHR ''-'' # str_nat (nat (- i)) else str_nat (nat i))"

text \<open>Truthiness of a string-valued dictionary entry fetched with \<open>dict.get\<close>: a missing
  key gives \<open>None\<close> and an empty string is falsy.\<close>

definition truthy_str :: "string option \<Rightarrow> bool" where
  "truthy_str v = (case v of None \<Rightarrow> False | Some s \<Rightarrow> s \<noteq> [])"

definition truthy_bool :: "bool option \<Rightarrow> bool" where
  "truthy_bool v = (case v of None \<Rightarrow> False | Some b \<Rightarrow> b)"

section \<open>The shell tokenizer and quoting of Python's \<open>shlex\<close> module\<close>

text \<open>
  The command builder calls \<open>shlex.split\<close> and \<open>shlex.quote\<close>. Both are modelled after
  CPython's \<open>Lib/shlex.py\<close>. \<open>shlex.split(s)\<close> runs the lexer in POSIX mode with
  \<open>whitespace_split\<close> set, no comment characters and no punctuation characters.
  The lexer reads one character at a time; its variables are the state (\<open>' '\<close>,
  \<open>'a'\<close>, a quote character, or the escape character), \<open>escapedstate\<close>, the token
  read so far and the flag \<open>quoted\<close>. \<open>ValueError\<close> (an unclosed quotation, a trailing
  escape) is the result \<open>None\<close>.
\<close>

datatype lex_state = Ws | Word | Quote char | Escape

definition shlex_whitespace :: "char list" where
  "shlex_whitespace = [CHR 0x20, CHR 0x09, CHR 0x0D, CHR 0x0A]"

definition shlex_quotes :: "char list" where
  "shlex_quotes = [sq, dq]"

definition emit :: "string \<Rightarrow> string list option \<Rightarrow> string list option" where
  "emit tok rest = map_option ((#) tok) rest"

fun read_tokens ::
  "lex_state \<Rightarrow> lex_state \<Rightarrow> string \<Rightarrow> bool \<Rightarrow> string \<Rightarrow> string list option" where
  "read_tokens st es tok quoted [] =
     (case st of
        Quote q \<Rightarrow> None
      | Escape \<Rightarrow> None
      | _ \<Rightarrow> if tok \<noteq> [] \<or> quoted then Some [tok] else Some [])"
| "read_tokens st es tok quoted (c # cs) =
     (case st of
        Ws \<Rightarrow>
          if c \<in> set shlex_whitespace
          then (if tok \<noteq> [] \<or> quoted then emit tok (read_tokens Ws Ws [] False cs)
                else read_tokens Ws es tok quoted cs)
          else if c = bsl then read_tokens Escape Word tok quoted cs
          else if c \<in> set shlex_quotes then read_tokens (Quote c) es tok quoted cs
          else read_tokens Word es [c] quoted cs
      | Quote q \<Rightarrow>
          if c = q then read_tokens Word es tok True cs
          else if c = bsl \<and> q = dq then read_tokens Escape (Quote q) tok True cs
          else read_tokens (Quote q) es (tok @ [c]) True cs
      | Escape \<Rightarrow>
          read_tokens es es
            ((if (case es of Quote q \<Rightarrow> c \<noteq> bsl \<and> c \<noteq> q | _ \<Rightarrow> False)
              then tok @ [bsl] else tok) @ [c])
            quoted cs
      | Word \<Rightarrow>
          if c \<in> set shlex_whitespace
          then (if tok \<noteq> [] \<or> quoted then emit tok (read_tokens Ws Ws [] False cs)
                else read_tokens Ws es tok quoted cs)
          else if c \<in> set shlex_quotes then read_tokens (Quote c) es tok quoted cs
          else if c = bsl then read_tokens Escape Word tok quoted cs
          else read_tokens Word es (tok @ [c]) quoted cs)"

definition shlex_split :: "string \<Rightarrow> string list option" where
  "shlex_split s = read_tokens Ws Ws [] False s"

text \<open>\<open>shlex.quote\<close>: the empty string becomes two single quotes; a string of safe
  characters only (ASCII letters, digits, underscore and \<open>@%+=:,./-\<close>) is returned as
  it is; any other string is wrapped in single quotes, each single quote inside it
  replaced by \<open>'"'"'\<close>.\<close>

definition safe_chars :: "char list" where
  "safe_chars =
     ''abcdefghijklmnopqrstuvwxyzABCDEFGHIJKLMNOPQRSTUVWXYZ0123456789_@%+=:,./-''"

fun replace_sq :: "string \<Rightarrow> string" where
  "replace_sq [] = []"
| "replace_sq (c # cs) =
     (if c = sq then [sq, dq, sq, dq, sq] @ replace_sq cs else c # replace_sq cs)"

definition shlex_quote :: "string \<Rightarrow> string" where
  "shlex_quote s =
     (if s = [] then [sq, sq]
      else if list_all (\<lambda>c. c \<in> set safe_chars) s then s
      else [sq] @ replace_sq s @ [sq])"

section \<open>The command builder\<close>

text \<open>
  \<open>target\<close> and \<open>options\<close> are Python dictionaries. Each key the builder reads is a
  field holding \<open>None\<close> when the key is absent. The numeric options that the builder
  renders with \<open>str\<close> and that the validator tests with \<open>isinstance(v, int)\<close> hold a
  \<open>pyval\<close>: an integer, a boolean (which Python counts as an integer) or any other
  value, kept as its \<open>str\<close> rendering.
\<close>

datatype pyval = PInt int | PBool bool | POther string

fun str_val :: "pyval \<Rightarrow> string" where
  "str_val (PInt i) = str_int i"
| "str_val (PBool b) = (if b then ''True'' else ''False'')"
| "str_val (POther s) = s"

fun is_int :: "pyval \<Rightarrow> bool" where
  "is_int (PInt i) = True"
| "is_int (PBool b) = True"
| "is_int (POther s) = False"

fun int_val :: "pyval \<Rightarrow> int" where
  "int_val (PInt i) = i"
| "int_val (PBool b) = (if b then 1 else 0)"
| "int_val (POther s) = 0"

record target =
  url :: "string option"
  request_file :: "string option"
  data :: "string option"
  cookies :: "string option"
  headers :: "string option"
  random_user_agent :: "bool option"

record options =
  risk_level :: "pyval option"
  level :: "pyval option"
  threads :: "pyval option"
  timeout :: "pyval option"
  retries :: "pyval option"
  techniques :: "string list option"
  dbms :: "string option"
  detection :: "string list option"
  proxy :: "string option"
  tor :: "bool option"
  tor_port :: "pyval option"
  delay :: "int option"
  skip_url_encode :: "bool option"
  skip_static :: "bool option"
  tamper :: "string option"
  os :: "string option"
  batch :: "bool option"
  skip_waf :: "bool option"
  fresh_queries :: "bool option"
  custom_args :: "string option"

text \<open>The builder object: the resolved \<open>sqlmap_path\<close>, and the two values it reads from
  \<open>sys\<close> (\<open>frozen\<close>, set when running from a bundle, and \<open>executable\<close>).\<close>

record builder =
  sqlmap_path :: string
  frozen :: bool
  sys_executable :: string

text \<open>\<open>if key in d: args.extend([flag, d[key]])\<close> and \<open>if d.get(key): args.append(flag)\<close>,
  as the list each statement adds to \<open>args\<close>.\<close>

definition opt_arg :: "string \<Rightarrow> string option \<Rightarrow> string list" where
  "opt_arg flag v = (case v of Some x \<Rightarrow> [flag, x] | None \<Rightarrow> [])"

definition flag_arg :: "string \<Rightarrow> bool option \<Rightarrow> string list" where
  "flag_arg flag v = (if truthy_bool v then [flag] else [])"

definition build_target_args :: "target \<Rightarrow> string list" where
  "build_target_args t =
     opt_arg ''-u'' (url t) @
     opt_arg ''-r'' (request_file t) @
     opt_arg ''--data'' (data t) @
     opt_arg ''--cookie'' (cookies t) @
     opt_arg ''--headers'' (headers t) @
     flag_arg ''--random-agent'' (random_user_agent t)"

definition detection_map :: "(string \<times> string) list" where
  "detection_map =
     [(''banner'', ''--banner''),
      (''current_user'', ''--current-user''),
      (''current_db'', ''--current-db''),
      (''hostname'', ''--hostname''),
      (''is_dba'', ''--is-dba''),
      (''users'', ''--users''),
      (''passwords'', ''--passwords''),
      (''privileges'', ''--privileges''),
      (''roles'', ''--roles''),
      (''dbs'', ''--dbs''),
      (''tables'', ''--tables''),
      (''columns'', ''--columns''),
      (''schema'', ''--schema'')]"

text \<open>The loop over \<open>options['detection']\<close>: one flag for each entry that is a key of
  the map, in the order of the entries.\<close>

fun detection_args :: "string list \<Rightarrow> string list" where
  "detection_args [] = []"
| "detection_args (d # ds) =
     (case map_of detection_map d of
        Some flag \<Rightarrow> flag # detection_args ds
      | None \<Rightarrow> detection_args ds)"

text \<open>The arguments collected before the final batch check, in the order of the source:
  each line is what one statement adds to \<open>args\<close>.\<close>

definition option_args_head :: "options \<Rightarrow> string list" where
  "option_args_head opts =
     opt_arg ''--risk'' (map_option str_val (risk_level opts)) @
     opt_arg ''--level'' (map_option str_val (level opts)) @
     opt_arg ''--threads'' (map_option str_val (threads opts)) @
     opt_arg ''--timeout'' (map_option str_val (timeout opts)) @
     opt_arg ''--retries'' (map_option str_val (retries opts)) @
     (case techniques opts of
        Some ts \<Rightarrow> if ts \<noteq> [] then [''--technique'', concat ts] else []
      | None \<Rightarrow> []) @
     opt_arg ''--dbms'' (dbms opts) @
     (case detection opts of Some ds \<Rightarrow> detection_args ds | None \<Rightarrow> []) @
     opt_arg ''--proxy'' (proxy opts) @
     (if truthy_bool (tor opts)
      then [''--tor''] @ opt_arg ''--tor-port'' (map_option str_val (tor_port opts))
      else []) @
     (case delay opts of
        Some d \<Rightarrow> if d > 0 then [''--delay'', str_int d] else []
      | None \<Rightarrow> []) @
     flag_arg ''--skip-url-encode'' (skip_url_encode opts) @
     flag_arg ''--skip-static'' (skip_static opts) @
     opt_arg ''--tamper'' (tamper opts) @
     opt_arg ''--os'' (os opts) @
     flag_arg ''--batch'' (batch opts) @
     flag_arg ''--skip-waf'' (skip_waf opts) @
     flag_arg ''--fresh-queries'' (fresh_queries opts)"

text \<open>The custom arguments: stripped, then tokenized by \<open>shlex.split\<close>, or by a plain
  \<open>split()\<close> when the tokenizer raises \<open>ValueError\<close>.\<close>

definition custom_arg_list :: "options \<Rightarrow> string list" where
  "custom_arg_list opts =
     (case custom_args opts of
        None \<Rightarrow> []
      | Some c \<Rightarrow>
          (let custom = strip c
           in if custom \<noteq> []
              then (case shlex_split custom of
                      Some toks \<Rightarrow> toks
                    | None \<Rightarrow> split_ws custom)
              else []))"

definition build_option_args :: "options \<Rightarrow> string list" where
  "build_option_args opts =
     (let args = option_args_head opts
      in args @
         (if \<not> list_ex (is_substr ''--batch'') args then [''--batch''] else []) @
         custom_arg_list opts)"

definition build_command :: "builder \<Rightarrow> target \<Rightarrow> options \<Rightarrow> string list" where
  "build_command b t opts =
     (let cmd = (if suffix ''.py'' (sqlmap_path b)
                 then (if frozen b then [sys_executable b, sqlmap_path b]
                       else [''python'', sqlmap_path b])
                 else [sqlmap_path b])
      in cmd @ build_target_args t @ build_option_args opts)"

definition get_command_string :: "builder \<Rightarrow> target \<Rightarrow> options \<Rightarrow> string" where
  "get_command_string b t opts = join '' '' (map shlex_quote (build_command b t opts))"

text \<open>\<open>validate_target\<close>. \<open>isfile\<close> stands for \<open>os.path.isfile\<close>: the state of the file
  system is a parameter.\<close>

definition validate_target :: "(string \<Rightarrow> bool) \<Rightarrow> target \<Rightarrow> string list" where
  "validate_target isfile t =
     (if \<not> truthy_str (url t) \<and> \<not> truthy_str (request_file t)
      then [''Either URL or request file must be specified''] else []) @
     (case url t of
        Some u \<Rightarrow>
          if \<not> (prefix ''http://'' u \<or> prefix ''https://'' u)
          then [''URL must start with http:// or https://''] else []
      | None \<Rightarrow> []) @
     (case request_file t of
        Some f \<Rightarrow> if \<not> isfile f then [''Request file does not exist''] else []
      | None \<Rightarrow> [])"

definition valid_techniques :: "string list" where
  "valid_techniques = [''B'', ''E'', ''U'', ''S'', ''T'', ''Q'']"

text \<open>The loop over \<open>options['techniques']\<close>: one error for each entry outside the
  list of valid techniques.\<close>

fun technique_errors :: "string list \<Rightarrow> string list" where
  "technique_errors [] = []"
| "technique_errors (t # ts) =
     (if t \<notin> set valid_techniques
      then (''Invalid technique: '' @ t) # technique_errors ts
      else technique_errors ts)"

text \<open>The four range checks share one shape:
  \<open>if key in options: v = options[key]; if not isinstance(v, int) or v < lo or v > hi:
  errors.append(msg)\<close>.\<close>

definition range_error :: "pyval option \<Rightarrow> int \<Rightarrow> int \<Rightarrow> string \<Rightarrow> string list" where
  "range_error v lo hi msg =
     (case v of
        Some x \<Rightarrow> if \<not> is_int x \<or> int_val x < lo \<or> int_val x > hi then [msg] else []
      | None \<Rightarrow> [])"

definition validate_options :: "options \<Rightarrow> string list" where
  "validate_options opts =
     range_error (risk_level opts) 1 3 ''Risk level must be between 1 and 3'' @
     range_error (level opts) 1 5 ''Level must be between 1 and 5'' @
     range_error (threads opts) 1 10 ''Threads must be between 1 and 10'' @
     range_error (timeout opts) 1 300 ''Timeout must be between 1 and 300 seconds'' @
     (case techniques opts of Some ts \<Rightarrow> technique_errors ts | None \<Rightarrow> [])"

section \<open>The output interpreter\<close>

text \<open>
  \<open>_parse_sqlmap_output\<close> walks the output lines with four local variables (the current
  section, the vulnerabilities found, the database information and the target URL) and
  the \<open>result\<close> dictionary it updates. Indexing an empty list raises \<open>IndexError\<close>,
  which the interpreter does not catch.
\<close>

datatype error = IndexError

datatype sect = Vulnerability | NotVulnerable | Databases | UserInfo | VersionInfo

record vuln =
  v_parameter :: string
  v_type :: string
  v_title :: string
  v_payload :: string

text \<open>\<open>database_info\<close>: the scalar entries, and under \<open>databases\<close> the dictionary from a
  database name to its table list, kept in insertion order.\<close>

record database_info =
  di_dbms :: "string option"
  di_banner :: "string option"
  di_databases :: "(string \<times> string list) list option"
  di_current_user :: "string option"
  di_version :: "string option"

record result =
  r_status :: string
  r_target :: string
  r_dbms :: string
  r_vulnerable :: bool
  r_vulnerabilities :: "vuln list"
  r_database_info :: database_info
  r_summary :: string
  r_raw_output :: string
  r_timestamp :: string

record pstate =
  current_section :: "sect option"
  vulnerabilities :: "vuln list"
  database_info :: database_info
  target_url :: "string option"
  result :: result

definition upd_target :: "string \<Rightarrow> pstate \<Rightarrow> pstate" where
  "upd_target v s = s\<lparr>result := (result s)\<lparr>r_target := v\<rparr>\<rparr>"

definition upd_vulnerable :: "bool \<Rightarrow> pstate \<Rightarrow> pstate" where
  "upd_vulnerable v s = s\<lparr>result := (result s)\<lparr>r_vulnerable := v\<rparr>\<rparr>"

definition upd_summary :: "string \<Rightarrow> pstate \<Rightarrow> pstate" where
  "upd_summary v s = s\<lparr>result := (result s)\<lparr>r_summary := v\<rparr>\<rparr>"

text \<open>The text between the first and the last single quote of a line, when the line has
  two of them with something in between.\<close>

definition quoted_value :: "string \<Rightarrow> string option" where
  "quoted_value line =
     (if is_substr [sq] line
      then (let start = find sq line + 1; fin = rfind sq line
            in if start > 0 \<and> fin > start then Some (slice line start fin) else None)
      else None)"

text \<open>\<open>line.split('Parameter: ')[-1].split()[0]\<close>.\<close>

definition param_of :: "string \<Rightarrow> error + string" where
  "param_of line =
     (case split_ws (last (split_sep ''Parameter: '' line)) of
        [] \<Rightarrow> Inl IndexError
      | w # ws \<Rightarrow> Inr w)"

text \<open>Make sure that \<open>database_info['databases'][db]\<close> exists.\<close>

definition ensure_db :: "string \<Rightarrow> database_info \<Rightarrow> database_info" where
  "ensure_db db di =
     (let dbs = (case di_databases di of None \<Rightarrow> [] | Some m \<Rightarrow> m);
          dbs = (if map_of dbs db = None then dbs @ [(db, [])] else dbs)
      in di\<lparr>di_databases := Some dbs\<rparr>)"

text \<open>Append a table to the list of a database, unless the list has it already.\<close>

definition add_table :: "string \<Rightarrow> string \<Rightarrow> database_info \<Rightarrow> database_info" where
  "add_table db tbl di =
     (let dbs = (case di_databases di of None \<Rightarrow> [] | Some m \<Rightarrow> m)
      in di\<lparr>di_databases :=
              Some (map (\<lambda>(k, ts). if k = db \<and> tbl \<notin> set ts then (k, ts @ [tbl]) else (k, ts))
                      dbs)\<rparr>)"

text \<open>One pass of the loop body on a line that is already stripped and not empty: the
  chain of \<open>if\<close>/\<open>elif\<close> tests, in the order of the source.\<close>

definition parse_line :: "pstate \<Rightarrow> string \<Rightarrow> error + pstate" where
  "parse_line s line =
    (if is_substr ''[*] testing connection to the target URL'' line then
       (case quoted_value line of
          Some v \<Rightarrow> Inr (upd_target v (s\<lparr>target_url := Some v\<rparr>))
        | None \<Rightarrow> Inr s)
     else if is_substr ''[*] starting at'' line \<and> is_substr ''[*] ending at'' line then
       (if truthy_str (target_url s) then Inr (upd_target (the (target_url s)) s) else Inr s)
     else if is_substr ''[INFO] testing URL'' line then
       (case quoted_value line of
          Some v \<Rightarrow> Inr (upd_target v s)
        | None \<Rightarrow> Inr s)
     else if is_substr ''[INFO] testing connection to the target URL'' line then
       (case quoted_value line of
          Some v \<Rightarrow> Inr (upd_target v s)
        | None \<Rightarrow> Inr s)
     else if is_substr ''[INFO] the back-end DBMS is'' line then
       (let d = strip (last (split_sep ''is '' line))
        in Inr (s\<lparr>result := (result s)\<lparr>r_dbms := d\<rparr>,
                  database_info := (database_info s)\<lparr>di_dbms := Some d\<rparr>\<rparr>))
     else if is_substr ''[INFO] banner:'' line then
       (let banner = strip (last (split_sep ''banner: '' line))
        in Inr (s\<lparr>database_info := (database_info s)\<lparr>di_banner := Some banner\<rparr>\<rparr>))
     else if is_substr ''[CRITICAL] sqlmap identified the following injection point(s):'' line
     then Inr (upd_vulnerable True s\<lparr>current_section := Some Vulnerability\<rparr>)
     else if is_substr ''[CRITICAL] all tested parameters appear to be not injectable'' line
     then Inr (upd_vulnerable False s\<lparr>current_section := Some NotVulnerable\<rparr>)
     else if is_substr ''[INFO] sqlmap identified the following injection point(s):'' line
     then Inr (upd_vulnerable True s\<lparr>current_section := Some Vulnerability\<rparr>)
     else if is_substr ''[PAYLOAD]'' line \<and> current_section s = Some Vulnerability then
       (if is_substr ''Parameter:'' line
        then (case param_of line of
                Inl e \<Rightarrow> Inl e
              | Inr param \<Rightarrow>
                  Inr (s\<lparr>vulnerabilities := vulnerabilities s @
                         [\<lparr>v_parameter = param, v_type = ''Unknown'',
                           v_title = ''SQL Injection'', v_payload = line\<rparr>]\<rparr>))
        else Inr s)
     else if is_substr ''[INFO] testing for SQL injection on'' line then
       (if is_substr ''Parameter:'' line
        then (case param_of line of
                Inl e \<Rightarrow> Inl e
              | Inr param \<Rightarrow> Inr (upd_vulnerable True s))
        else Inr s)
     else if is_substr ''[INFO] testing'' line \<and> is_substr ''injection'' (lower line) then
       (if is_substr ''Parameter:'' line
        then (case param_of line of
                Inl e \<Rightarrow> Inl e
              | Inr param \<Rightarrow> Inr s)
        else Inr s)
     else if is_substr ''[INFO] fetching database names'' line
     then Inr (s\<lparr>current_section := Some Databases\<rparr>)
     else if is_substr ''[INFO] fetching tables for database:'' line then
       (let db_name = strip_chars [sq, dq] (last (split_sep ''database: '' line))
        in Inr (s\<lparr>database_info := ensure_db db_name (database_info s)\<rparr>))
     else if is_substr ''[INFO] fetching columns for table'' line then
       (if is_substr ''table '' line \<and> is_substr ''database'' line
        then (let table_info = last (split_sep ''table '' line)
              in if is_substr '' in database'' table_info
                 then (let table_name =
                             strip_chars [sq, dq] (hd (split_sep '' in database'' table_info));
                           db_name =
                             strip_chars [sq, dq] (last (split_sep ''database '' table_info))
                       in Inr (s\<lparr>database_info :=
                                    add_table db_name table_name
                                      (ensure_db db_name (database_info s))\<rparr>))
                 else Inr s)
        else Inr s)
     else if is_substr ''[INFO] fetching current user'' line
     then Inr (s\<lparr>current_section := Some UserInfo\<rparr>)
     else if is_substr ''[INFO] retrieved:'' line \<and> current_section s = Some UserInfo then
       (let user_info = strip (last (split_sep ''retrieved: '' line))
        in Inr (s\<lparr>database_info := (database_info s)\<lparr>di_current_user := Some user_info\<rparr>\<rparr>))
     else if is_substr ''[INFO] fetching database server version'' line
     then Inr (s\<lparr>current_section := Some VersionInfo\<rparr>)
     else if is_substr ''[INFO] retrieved:'' line \<and> current_section s = Some VersionInfo then
       (let version_info = strip (last (split_sep ''retrieved: '' line))
        in Inr (s\<lparr>database_info := (database_info s)\<lparr>di_version := Some version_info\<rparr>\<rparr>))
     else if is_substr ''[INFO] retrieved:'' line then
       (if \<not> r_vulnerable (result s) then Inr (upd_vulnerable True s) else Inr s)
     else if is_substr ''[INFO] sqlmap identified the following injection point(s):'' line
     then Inr (upd_summary ''SQL injection vulnerability found'' (upd_vulnerable True s))
     else if is_substr ''[INFO] no injection point(s) found'' line
     then Inr (upd_summary ''No SQL injection vulnerabilities found'' (upd_vulnerable False s))
     else if is_substr ''[CRITICAL] all tested parameters appear to be not injectable'' line
     then Inr (upd_summary ''No SQL injection vulnerabilities found'' (upd_vulnerable False s))
     else if is_substr ''[INFO] sqlmap got a connection to the target URL'' line
     then Inr (upd_summary ''Successfully connected to target'' s)
     else if is_substr ''[INFO] confirming that the parameter'' line
             \<and> is_substr ''is injectable'' line
     then Inr (upd_vulnerable True s)
     else if is_substr ''[INFO] parameter'' line \<and> is_substr ''is vulnerable'' line
     then Inr (upd_vulnerable True s)
     else if is_substr ''[INFO] found a total of'' line \<and> is_substr ''injection point(s)'' line
     then Inr (upd_vulnerable True s)
     else Inr s)"

text \<open>The loop over the lines: each line is stripped, and an empty one is skipped.\<close>

fun parse_lines :: "pstate \<Rightarrow> string list \<Rightarrow> error + pstate" where
  "parse_lines s [] = Inr s"
| "parse_lines s (l # ls) =
     (let line = strip l
      in if line = [] then parse_lines s ls
         else (case parse_line s line of
                 Inl e \<Rightarrow> Inl e
               | Inr s' \<Rightarrow> parse_lines s' ls))"

text \<open>\<open>self.command.index(arg)\<close> for an \<open>arg\<close> that occurs in the command.\<close>

fun index_of :: "string list \<Rightarrow> string \<Rightarrow> nat" where
  "index_of [] a = 0"
| "index_of (x # xs) a = (if x = a then 0 else Suc (index_of xs a))"

text \<open>The fallback loop over the arguments of the command: the first argument that is a
  URL, or the argument after the first \<open>-u\<close>.\<close>

fun target_from_command :: "string list \<Rightarrow> string list \<Rightarrow> string option" where
  "target_from_command cmd [] = None"
| "target_from_command cmd (arg # args) =
     (if prefix ''http://'' arg \<or> prefix ''https://'' arg then Some arg
      else if arg = ''-u'' \<and> length cmd > index_of cmd arg + 1
      then Some (cmd ! (index_of cmd arg + 1))
      else target_from_command cmd args)"

text \<open>What follows the loop: the collected lists go into the result, the target falls
  back to the command, and the summary is written from the final flag.\<close>

definition finish :: "string list \<Rightarrow> pstate \<Rightarrow> result" where
  "finish command s =
     (let res = (result s)\<lparr>r_vulnerabilities := vulnerabilities s,
                             r_database_info := database_info s\<rparr>;
          res = (if r_target res = ''Unknown'' \<and> command \<noteq> []
                 then (case target_from_command command command of
                         Some t \<Rightarrow> res\<lparr>r_target := t\<rparr>
                       | None \<Rightarrow> res)
                 else res)
      in if r_vulnerable res
         then (let vuln_count = length (vulnerabilities s)
               in if vuln_count > 0
                  then res\<lparr>r_summary := ''Found '' @ str_int (int vuln_count) @
                                           '' SQL injection vulnerability(ies)''\<rparr>
                  else res\<lparr>r_summary := ''SQL injection vulnerability detected''\<rparr>)
         else res\<lparr>r_summary := ''No SQL injection vulnerabilities found''\<rparr>)"

definition init_state :: "result \<Rightarrow> pstate" where
  "init_state res =
     \<lparr>current_section = None, vulnerabilities = [],
      database_info = \<lparr>di_dbms = None, di_banner = None, di_databases = None,
                        di_current_user = None, di_version = None\<rparr>,
      target_url = None, result = res\<rparr>"

definition parse_sqlmap_output :: "string list \<Rightarrow> string list \<Rightarrow> result \<Rightarrow> error + result" where
  "parse_sqlmap_output command lines res =
     (case parse_lines (init_state res) lines of
        Inl e \<Rightarrow> Inl e
      | Inr s \<Rightarrow> Inr (finish command s))"

text \<open>\<open>_parse_results\<close>: the initial result, then the interpreter on the stored output
  lines. The time stamp is what \<open>time.strftime\<close> returns, a parameter here.\<close>

definition initial_result :: "string list \<Rightarrow> string \<Rightarrow> result" where
  "initial_result output_lines ts =
     \<lparr>r_status = ''completed'', r_target = ''Unknown'', r_dbms = ''Unknown'',
      r_vulnerable = False, r_vulnerabilities = [],
      r_database_info = \<lparr>di_dbms = None, di_banner = None, di_databases = None,
                          di_current_user = None, di_version = None\<rparr>,
      r_summary = ''Scan completed successfully'',
      r_raw_output = join [CHR 0x0A] output_lines, r_timestamp = ts\<rparr>"

definition parse_results :: "string list \<Rightarrow> string list \<Rightarrow> string \<Rightarrow> error + result" where
  "parse_results command output_lines ts =
     parse_sqlmap_output command output_lines (initial_result output_lines ts)"

section \<open>Auxiliary notions for the statements\<close>

text \<open>The strings that \<open>build_command\<close> copies into the command from the builder, the
  target and the options (an absent key is \<open>None\<close>); every other argument is one of the
  builder's own fixed flags, the rendering of the delay, or a custom argument.\<close>

definition supplied_strings :: "builder \<Rightarrow> target \<Rightarrow> options \<Rightarrow> string option list" where
  "supplied_strings b t opts =
     [Some (sqlmap_path b), Some (sys_executable b),
      url t, request_file t, data t, cookies t, headers t,
      map_option str_val (risk_level opts), map_option str_val (level opts),
      map_option str_val (threads opts), map_option str_val (timeout opts),
      map_option str_val (retries opts), map_option concat (techniques opts),
      dbms opts, proxy opts, map_option str_val (tor_port opts),
      tamper opts, os opts]"

definition batch_free :: "string list \<Rightarrow> bool" where
  "batch_free xs = (\<forall>a \<in> set xs. \<not> is_substr ''--batch'' a)"

section \<open>Example inputs\<close>

definition ex_builder :: builder where
  "ex_builder =
     \<lparr>sqlmap_path = ''sqlmap.py'', frozen = False, sys_executable = ''/usr/bin/python3''\<rparr>"

definition ex_target :: target where
  "ex_target =
     \<lparr>url = Some ''http://testphp.vulnweb.com/artists.php?artist=1'',
      request_file = None, data = None, cookies = None, headers = None,
      random_user_agent = Some True\<rparr>"

definition ex_options :: options where
  "ex_options =
     \<lparr>risk_level = Some (PInt 2), level = Some (PInt 3), threads = Some (PInt 4),
      timeout = Some (PInt 30), retries = Some (PInt 3), techniques = Some [''B'', ''T''],
      dbms = Some ''mysql'', detection = Some [''banner'', ''dbs''], proxy = None,
      tor = Some True, tor_port = Some (PInt 9050), delay = Some 0,
      skip_url_encode = Some False, skip_static = Some False, tamper = None, os = None,
      batch = Some True, skip_waf = None, fresh_queries = Some False,
      custom_args = Some ''-v 3''\<rparr>"

text \<open>Options that set the batch flag and also pass \<open>--batch\<close> as a custom argument.\<close>

definition cx_options :: options where
  "cx_options =
     \<lparr>risk_level = None, level = None, threads = None,
      timeout = None, retries = None, techniques = None,
      dbms = None, detection = None, proxy = None,
      tor = None, tor_port = None, delay = None,
      skip_url_encode = None, skip_static = None, tamper = None, os = None,
      batch = Some True, skip_waf = None, fresh_queries = None,
      custom_args = Some ''--batch''\<rparr>"

text \<open>A target with both a URL and a request file.\<close>

definition cx_target :: target where
  "cx_target =
     \<lparr>url = Some ''http://example.com/?id=1'', request_file = Some ''request.txt'',
      data = None, cookies = None, headers = None, random_user_agent = None\<rparr>"

section \<open>Facts about the string primitives\<close>

lemmas eval_simps = str_int_def str_nat.simps strip_def isspace_def shlex_split_def
  shlex_whitespace_def shlex_quotes_def emit_def

lemma is_substr_refl: "is_substr x x"
  by (cases x) simp_all

lemma is_substr_set: "is_substr sub s \<Longrightarrow> set sub \<subseteq> set s"
proof (induction s)
  case Nil
  then show ?case by simp
next
  case (Cons c cs)
  from Cons.prems have "prefix sub (c # cs) \<or> is_substr sub cs" by simp
  then show ?case
  proof
    assume "prefix sub (c # cs)"
    then show ?thesis by (rule set_mono_prefix)
  next
    assume "is_substr sub cs"
    then have "set sub \<subseteq> set cs" by (rule Cons.IH)
    then show ?thesis by auto
  qed
qed

lemma str_nat_digits: "set (str_nat n) \<subseteq> set ''0123456789''"
proof (induction n rule: str_nat.induct)
  case (1 n)
  have d: "\<And>k. k < 10 \<Longrightarrow> ''0123456789'' ! k \<in> set ''0123456789''"
    by (rule nth_mem) simp
  show ?case
  proof (cases "n < 10")
    case True
    then show ?thesis using d[of n] by (subst str_nat.simps) simp
  next
    case False
    have "n mod 10 < 10" by simp
    with False "1.IH" d[of "n mod 10"] show ?thesis
      by (subst str_nat.simps) simp
  qed
qed

section \<open>Properties of the command builder\<close>

lemma str_int_no_batch: "\<not> is_substr ''--batch'' (str_int d)"
proof
  assume "is_substr ''--batch'' (str_int d)"
  then have "CHR ''b'' \<in> set (str_int d)"
    using is_substr_set by fastforce
  then show False
    using str_nat_digits[of "nat d"]  str_nat_digits[of "nat (- d)"] by (auto simp: str_int_def split: if_splits)
qed

lemma detection_args_subset: "set (detection_args ds) \<subseteq> snd ` set detection_map"
proof (induction ds)
  case Nil
  then show ?case by simp
next
  case (Cons d ds)
  show ?case
  proof (cases "map_of detection_map d")
    case None
    with Cons show ?thesis by simp
  next
    case (Some flag)
    then have "(d, flag) \<in> set detection_map" by (rule map_of_SomeD)
    then have "flag \<in> snd ` set detection_map" by force
    with Some Cons show ?thesis by simp
  qed
qed

lemma detection_args_no_batch: "a \<in> set (detection_args ds) \<Longrightarrow> \<not> is_substr ''--batch'' a"
proof -
  assume "a \<in> set (detection_args ds)"
  then have "a \<in> snd ` set detection_map" using detection_args_subset by blast
  then show ?thesis by (auto simp: detection_map_def)
qed

lemma batch_free_append [simp]: "batch_free (xs @ ys) \<longleftrightarrow> batch_free xs \<and> batch_free ys"
  by (auto simp: batch_free_def)

lemma batch_free_opt_arg:
  "\<not> is_substr ''--batch'' f \<Longrightarrow> (\<And>x. v = Some x \<Longrightarrow> \<not> is_substr ''--batch'' x) \<Longrightarrow>
   batch_free (opt_arg f v)"
  by (cases v) (simp_all add: batch_free_def opt_arg_def)

lemma batch_free_flag_arg:
  "\<not> is_substr ''--batch'' f \<Longrightarrow> batch_free (flag_arg f v)"
  by (simp add: batch_free_def flag_arg_def)

lemma flag_arg_None: "flag_arg f None = []"
  by (simp add: flag_arg_def truthy_bool_def)

lemma batch_free_count: "batch_free xs \<Longrightarrow> count_list xs ''--batch'' = 0"
  using is_substr_refl by (fastforce simp: batch_free_def count_list_0_iff)

lemma batch_free_list_ex: "batch_free xs \<Longrightarrow> \<not> list_ex (is_substr ''--batch'') xs"
  by (simp add: batch_free_def list_ex_iff)

lemma supplied_strings_values:
  assumes "\<forall>v. Some v \<in> set (supplied_strings b t opts) \<longrightarrow> \<not> is_substr ''--batch'' v"
  shows "\<And>x. risk_level opts = Some x \<Longrightarrow> \<not> is_substr ''--batch'' (str_val x)"
    and "\<And>x. level opts = Some x \<Longrightarrow> \<not> is_substr ''--batch'' (str_val x)"
    and "\<And>x. threads opts = Some x \<Longrightarrow> \<not> is_substr ''--batch'' (str_val x)"
    and "\<And>x. timeout opts = Some x \<Longrightarrow> \<not> is_substr ''--batch'' (str_val x)"
    and "\<And>x. retries opts = Some x \<Longrightarrow> \<not> is_substr ''--batch'' (str_val x)"
    and "\<And>x. tor_port opts = Some x \<Longrightarrow> \<not> is_substr ''--batch'' (str_val x)"
    and "\<And>x. techniques opts = Some x \<Longrightarrow> \<not> is_substr ''--batch'' (concat x)"
    and "\<And>x. dbms opts = Some x \<Longrightarrow> \<not> is_substr ''--batch'' x"
    and "\<And>x. proxy opts = Some x \<Longrightarrow> \<not> is_substr ''--batch'' x"
    and "\<And>x. tamper opts = Some x \<Longrightarrow> \<not> is_substr ''--batch'' x"
    and "\<And>x. os opts = Some x \<Longrightarrow> \<not> is_substr ''--batch'' x"
    and "\<And>x. url t = Some x \<Longrightarrow> \<not> is_substr ''--batch'' x"
    and "\<And>x. request_file t = Some x \<Longrightarrow> \<not> is_substr ''--batch'' x"
    and "\<And>x. data t = Some x \<Longrightarrow> \<not> is_substr ''--batch'' x"
    and "\<And>x. cookies t = Some x \<Longrightarrow> \<not> is_substr ''--batch'' x"
    and "\<And>x. headers t = Some x \<Longrightarrow> \<not> is_substr ''--batch'' x"
    and "\<not> is_substr ''--batch'' (sqlmap_path b)"
    and "\<not> is_substr ''--batch'' (sys_executable b)"
  using assms
  by (simp_all add: supplied_strings_def del: is_substr.simps)

lemma batch_free_Nil: "batch_free []"
  by (simp add: batch_free_def)

lemma batch_free_num_arg:
  "\<not> is_substr ''--batch'' f \<Longrightarrow> (\<And>x. v = Some x \<Longrightarrow> \<not> is_substr ''--batch'' (str_val x)) \<Longrightarrow>
   batch_free (opt_arg f (map_option str_val v))"
  by (cases v) (simp_all add: batch_free_def opt_arg_def)

lemma head_batch_free:
  assumes "\<forall>v. Some v \<in> set (supplied_strings b t opts) \<longrightarrow> \<not> is_substr ''--batch'' v"
  shows "batch_free (option_args_head (opts\<lparr>batch := None\<rparr>))"
proof -
  note S = supplied_strings_values[OF assms]
  have num:
    "batch_free (opt_arg ''--risk'' (map_option str_val (risk_level opts)))"
    "batch_free (opt_arg ''--level'' (map_option str_val (level opts)))"
    "batch_free (opt_arg ''--threads'' (map_option str_val (threads opts)))"
    "batch_free (opt_arg ''--timeout'' (map_option str_val (timeout opts)))"
    "batch_free (opt_arg ''--retries'' (map_option str_val (retries opts)))"
    "batch_free (opt_arg ''--tor-port'' (map_option str_val (tor_port opts)))"
    by (rule batch_free_num_arg, simp, erule S)+
  have str:
    "batch_free (opt_arg ''--dbms'' (dbms opts))"
    "batch_free (opt_arg ''--proxy'' (proxy opts))"
    "batch_free (opt_arg ''--tamper'' (tamper opts))"
    "batch_free (opt_arg ''--os'' (os opts))"
    by (rule batch_free_opt_arg, simp, erule S)+
  have tech: "batch_free (case techniques opts of
        Some ts \<Rightarrow> if ts \<noteq> [] then [''--technique'', concat ts] else []
      | None \<Rightarrow> [])"
    using S(7) by (auto simp: batch_free_def split: option.split)
  have det: "batch_free (case detection opts of Some ds \<Rightarrow> detection_args ds | None \<Rightarrow> [])"
    using detection_args_no_batch by (auto simp: batch_free_def split: option.split)
  have torp: "batch_free (if truthy_bool (tor opts)
      then [''--tor''] @ opt_arg ''--tor-port'' (map_option str_val (tor_port opts))
      else [])"
    using num(6) by (auto simp: batch_free_def)
  have del: "batch_free (case delay opts of
        Some d \<Rightarrow> if d > 0 then [''--delay'', str_int d] else []
      | None \<Rightarrow> [])"
    using str_int_no_batch by (auto simp: batch_free_def split: option.split)
  have flags:
    "batch_free (flag_arg ''--skip-url-encode'' (skip_url_encode opts))"
    "batch_free (flag_arg ''--skip-static'' (skip_static opts))"
    "batch_free (flag_arg ''--skip-waf'' (skip_waf opts))"
    "batch_free (flag_arg ''--fresh-queries'' (fresh_queries opts))"
    by (rule batch_free_flag_arg, simp)+
  have eq: "option_args_head (opts\<lparr>batch := None\<rparr>) =
     opt_arg ''--risk'' (map_option str_val (risk_level opts)) @
     opt_arg ''--level'' (map_option str_val (level opts)) @
     opt_arg ''--threads'' (map_option str_val (threads opts)) @
     opt_arg ''--timeout'' (map_option str_val (timeout opts)) @
     opt_arg ''--retries'' (map_option str_val (retries opts)) @
     (case techniques opts of
        Some ts \<Rightarrow> if ts \<noteq> [] then [''--technique'', concat ts] else []
      | None \<Rightarrow> []) @
     opt_arg ''--dbms'' (dbms opts) @
     (case detection opts of Some ds \<Rightarrow> detection_args ds | None \<Rightarrow> []) @
     opt_arg ''--proxy'' (proxy opts) @
     (if truthy_bool (tor opts)
      then [''--tor''] @ opt_arg ''--tor-port'' (map_option str_val (tor_port opts))
      else []) @
     (case delay opts of
        Some d \<Rightarrow> if d > 0 then [''--delay'', str_int d] else []
      | None \<Rightarrow> []) @
     flag_arg ''--skip-url-encode'' (skip_url_encode opts) @
     flag_arg ''--skip-static'' (skip_static opts) @
     opt_arg ''--tamper'' (tamper opts) @
     opt_arg ''--os'' (os opts) @
     flag_arg ''--skip-waf'' (skip_waf opts) @
     flag_arg ''--fresh-queries'' (fresh_queries opts)"
    by (simp add: option_args_head_def flag_arg_None)
  show ?thesis
    unfolding eq batch_free_append
    by (intro conjI num str tech det torp del flags)
qed

lemma head_count_split:
  "count_list (option_args_head opts) x =
     count_list (option_args_head (opts\<lparr>batch := None\<rparr>)) x +
     count_list (flag_arg ''--batch'' (batch opts)) x"
  by (simp add: option_args_head_def flag_arg_def truthy_bool_def)

lemma head_list_ex_split:
  "list_ex P (option_args_head opts) \<longleftrightarrow>
     list_ex P (option_args_head (opts\<lparr>batch := None\<rparr>)) \<or>
     list_ex P (flag_arg ''--batch'' (batch opts))"
  by (auto simp add: option_args_head_def flag_arg_def truthy_bool_def)

lemma head_batch_count:
  assumes "\<forall>v. Some v \<in> set (supplied_strings b t opts) \<longrightarrow> \<not> is_substr ''--batch'' v"
  shows "count_list (option_args_head opts) ''--batch'' = (if truthy_bool (batch opts) then 1 else 0)"
    and "list_ex (is_substr ''--batch'') (option_args_head opts) = truthy_bool (batch opts)"
proof -
  have free: "batch_free (option_args_head (opts\<lparr>batch := None\<rparr>))"
    using assms by (rule head_batch_free)
  show "count_list (option_args_head opts) ''--batch'' = (if truthy_bool (batch opts) then 1 else 0)"
    using batch_free_count[OF free] by (simp add: head_count_split[of opts] flag_arg_def)
  show "list_ex (is_substr ''--batch'') (option_args_head opts) = truthy_bool (batch opts)"
    using batch_free_list_ex[OF free] by (simp add: head_list_ex_split[of _ opts] flag_arg_def)
qed

lemma target_args_batch_free:
  assumes "\<forall>v. Some v \<in> set (supplied_strings b t opts) \<longrightarrow> \<not> is_substr ''--batch'' v"
  shows "batch_free (build_target_args t)"
  unfolding build_target_args_def
  by (simp add: batch_free_opt_arg batch_free_flag_arg supplied_strings_values[OF assms])

text \<open>
  Claim C1, as amended. When none of the strings copied from the builder, the target and
  the options contains \<open>--batch\<close>, and no custom argument is \<open>--batch\<close>, the argument
  vector returned by \<open>build_command\<close> contains \<open>--batch\<close> exactly once, whatever the
  stored batch flag is: set, it adds the argument itself; unset or absent, the final
  check adds it.
\<close>

theorem build_command_batch_once:
  assumes "\<forall>v. Some v \<in> set (supplied_strings b t opts) \<longrightarrow> \<not> is_substr ''--batch'' v"
    and "''--batch'' \<notin> set (custom_arg_list opts)"
  shows "count_list (build_command b t opts) ''--batch'' = 1"
proof -
  note S = supplied_strings_values[OF assms(1)]
  have exe: "sqlmap_path b \<noteq> ''--batch''" "sys_executable b \<noteq> ''--batch''"
    using S(17,18) is_substr_refl[of "''--batch''"] by auto
  have tgt: "count_list (build_target_args t) ''--batch'' = 0"
    using target_args_batch_free[OF assms(1)] by (rule batch_free_count)
  have cust: "count_list (custom_arg_list opts) ''--batch'' = 0"
    using assms(2) by simp
  have opt: "count_list (build_option_args opts) ''--batch'' = 1"
    using head_batch_count[OF assms(1)] cust
    by (simp add: build_option_args_def Let_def)
  show ?thesis
    using exe tgt opt by (simp add: build_command_def)
qed

theorem build_command_batch_once_witness:
  "count_list (build_command ex_builder ex_target ex_options) ''--batch'' = 1
   \<and> count_list (build_command ex_builder ex_target (ex_options\<lparr>batch := Some False\<rparr>))
        ''--batch'' = 1"
proof -
  have 1: "\<forall>v. Some v \<in> set (supplied_strings ex_builder ex_target ex_options) \<longrightarrow>
             \<not> is_substr ''--batch'' v"
    by (simp add: supplied_strings_def ex_builder_def ex_target_def ex_options_def eval_simps)
  have 2: "''--batch'' \<notin> set (custom_arg_list ex_options)"
    by (simp add: custom_arg_list_def ex_options_def eval_simps)
  have 3: "\<forall>v. Some v \<in> set (supplied_strings ex_builder ex_target
                                  (ex_options\<lparr>batch := Some False\<rparr>)) \<longrightarrow>
             \<not> is_substr ''--batch'' v"
    by (simp add: supplied_strings_def ex_builder_def ex_target_def ex_options_def eval_simps)
  have 4: "''--batch'' \<notin> set (custom_arg_list (ex_options\<lparr>batch := Some False\<rparr>))"
    by (simp add: custom_arg_list_def ex_options_def eval_simps)
  show ?thesis
    using build_command_batch_once[OF 1 2] build_command_batch_once[OF 3 4] by simp
qed

text \<open>
  Claim C1 as stated fails: with the batch flag set and \<open>--batch\<close> given as a custom
  argument, the argument vector contains \<open>--batch\<close> twice. The custom arguments are
  appended after the batch check and are not looked at by it.
\<close>

theorem build_command_batch_counterexample:
  "count_list (build_command ex_builder ex_target cx_options) ''--batch'' = 2"
  by (simp add: build_command_def build_target_args_def build_option_args_def
      option_args_head_def custom_arg_list_def opt_arg_def flag_arg_def truthy_bool_def
      ex_builder_def ex_target_def cx_options_def eval_simps)

text \<open>
  Claim C2, as amended. \<open>validate_target\<close> returns no error exactly when at least one of
  URL and request file is set to a non-empty string, the URL (if the key is present)
  starts with \<open>http://\<close> or \<open>https://\<close>, and the request file (if the key is present)
  exists. In particular it returns no error only if at least one of the two is set.
\<close>

theorem validate_target_empty_iff:
  "validate_target isfile t = [] \<longleftrightarrow>
     (truthy_str (url t) \<or> truthy_str (request_file t))
     \<and> (case url t of None \<Rightarrow> True | Some u \<Rightarrow> prefix ''http://'' u \<or> prefix ''https://'' u)
     \<and> (case request_file t of None \<Rightarrow> True | Some f \<Rightarrow> isfile f)"
  by (simp add: validate_target_def split: option.split)

theorem validate_target_empty_iff_witness:
  "validate_target (\<lambda>f. False) ex_target = []
   \<and> validate_target (\<lambda>f. True)
        \<lparr>url = None, request_file = None, data = None, cookies = None, headers = None,
         random_user_agent = None\<rparr> \<noteq> []"
  by (simp add: validate_target_empty_iff ex_target_def truthy_str_def)

text \<open>
  Claim C2 as stated fails: a target with both a URL and a request file set, the URL
  well-formed and the file present, passes validation with no error.
\<close>

theorem validate_target_both_counterexample:
  "validate_target (\<lambda>f. f = ''request.txt'') cx_target = []
   \<and> url cx_target \<noteq> None \<and> request_file cx_target \<noteq> None"
  by (simp add: validate_target_def cx_target_def truthy_str_def)

lemma technique_errors_valid: "set ts \<subseteq> set valid_techniques \<Longrightarrow> technique_errors ts = []"
  by (induction ts) auto

text \<open>
  Claim C7. For options whose risk is in 1..3, level in 1..5, threads in 1..10, timeout
  in 1..300 and whose techniques are all among B, E, U, S, T, Q, \<open>validate_options\<close>
  returns no error; and with the risk replaced by any integer outside 1..3 (0 and 4 in
  particular) it returns exactly the risk-range error, and likewise one error for a
  level, thread count or timeout outside its range.
\<close>

theorem validate_options_ranges:
  assumes "risk_level opts = Some (PInt r)" "1 \<le> r" "r \<le> 3"
    and "level opts = Some (PInt l)" "1 \<le> l" "l \<le> 5"
    and "threads opts = Some (PInt n)" "1 \<le> n" "n \<le> 10"
    and "timeout opts = Some (PInt m)" "1 \<le> m" "m \<le> 300"
    and "techniques opts = Some ts" "set ts \<subseteq> {''B'', ''E'', ''U'', ''S'', ''T'', ''Q''}"
  shows "validate_options opts = []
    \<and> (\<forall>r'. r' < 1 \<or> r' > 3 \<longrightarrow>
          validate_options (opts\<lparr>risk_level := Some (PInt r')\<rparr>) =
            [''Risk level must be between 1 and 3''])
    \<and> (\<forall>l'. l' < 1 \<or> l' > 5 \<longrightarrow>
          validate_options (opts\<lparr>level := Some (PInt l')\<rparr>) =
            [''Level must be between 1 and 5''])
    \<and> (\<forall>n'. n' < 1 \<or> n' > 10 \<longrightarrow>
          validate_options (opts\<lparr>threads := Some (PInt n')\<rparr>) =
            [''Threads must be between 1 and 10''])
    \<and> (\<forall>m'. m' < 1 \<or> m' > 300 \<longrightarrow>
          validate_options (opts\<lparr>timeout := Some (PInt m')\<rparr>) =
            [''Timeout must be between 1 and 300 seconds''])"
proof -
  have te: "technique_errors ts = []"
    using assms(14) by (intro technique_errors_valid) (simp add: valid_techniques_def)
  show ?thesis
    using assms(1-13) te by (simp add: validate_options_def range_error_def)
qed

theorem validate_options_ranges_witness:
  "validate_options ex_options = []
   \<and> validate_options (ex_options\<lparr>risk_level := Some (PInt 0)\<rparr>) =
       [''Risk level must be between 1 and 3'']
   \<and> validate_options (ex_options\<lparr>risk_level := Some (PInt 4)\<rparr>) =
       [''Risk level must be between 1 and 3'']
   \<and> validate_options (ex_options\<lparr>timeout := Some (PInt 301)\<rparr>) =
       [''Timeout must be between 1 and 300 seconds'']"
proof -
  have "risk_level ex_options = Some (PInt 2)" "level ex_options = Some (PInt 3)"
    "threads ex_options = Some (PInt 4)" "timeout ex_options = Some (PInt 30)"
    "techniques ex_options = Some [''B'', ''T'']"
    by (simp_all add: ex_options_def)
  from validate_options_ranges[OF this(1) _ _ this(2) _ _ this(3) _ _ this(4) _ _ this(5)]
  show ?thesis by simp
qed

end
